theory Spec2Isabelle
  imports Complex_Main
begin

section \<open>Orders, the broker's book and the strategy\<close>

text \<open>
  The repository is one file, \<^verbatim>\<open>main.py\<close>: the class \<^verbatim>\<open>DualMovingAverageStrategy\<close>
  (its \<^verbatim>\<open>params\<close>, \<^verbatim>\<open>notify_order\<close> and \<^verbatim>\<open>next\<close>) and the script that runs a backtest
  and prints the analyzers' results. The class runs inside the backtrader framework, which
  is not part of the repository: the framework owns the orders, the position and the
  indicators, and calls \<^verbatim>\<open>next\<close> once per bar and \<^verbatim>\<open>notify_order\<close> on every change of
  an order's status.

  An order is a mutable object of the framework. The strategy keeps a reference to it in
  \<^verbatim>\<open>self.order\<close>, so the model has an explicit store: the broker's book is a list of
  orders and a reference is an index into it.
\<close>

datatype side = BUY | SELL

text \<open>
  The statuses \<^verbatim>\<open>notify_order\<close> names (lines 50, 54 and 62), and \<open>Created\<close>, the first
  state of the order life cycle of the spec (section 4.4).
\<close>

datatype order_status =
  Created | Submitted | Accepted | Completed | Canceled | Margin | Rejected

record order_rec =
  side :: side
  requestedSize :: int
  status :: order_status

text \<open>The class attribute \<^verbatim>\<open>params\<close> (lines 11 to 14) and its default values.\<close>

record params =
  fast_ma_period :: nat
  slow_ma_period :: nat

definition default_params :: params where
  "default_params = \<lparr>fast_ma_period = 50, slow_ma_period = 200\<rparr>"

text \<open>
  What \<^verbatim>\<open>self\<close> reaches in \<^verbatim>\<open>next\<close> and \<^verbatim>\<open>notify_order\<close>: the parameters, the tracker
  \<^verbatim>\<open>self.order\<close> (\<open>None\<close>, or a reference into the book), the broker's book and the size
  of \<^verbatim>\<open>self.position\<close>.
\<close>

record system =
  params :: params
  order :: "nat option"
  orders :: "order_rec list"
  position :: int

definition start :: "params \<Rightarrow> system" where
  "start p = \<lparr>params = p, order = None, orders = [], position = 0\<rparr>"

subsection \<open>The framework's order calls\<close>

text \<open>
  \<^verbatim>\<open>self.buy(size=n)\<close> and \<^verbatim>\<open>self.sell(size=n)\<close> hand a new order to the broker and return
  it. The new order is the last entry of the book; its reference is returned.
\<close>

definition new_order :: "side \<Rightarrow> int \<Rightarrow> system \<Rightarrow> system \<times> nat" where
  "new_order sd n s =
     (s\<lparr>orders := orders s @ [\<lparr>side = sd, requestedSize = n, status = Created\<rparr>]\<rparr>,
      length (orders s))"

definition buy :: "int \<Rightarrow> system \<Rightarrow> system \<times> nat" where
  "buy n s = new_order BUY n s"

definition sell :: "int \<Rightarrow> system \<Rightarrow> system \<times> nat" where
  "sell n s = new_order SELL n s"

text \<open>
  Modelled from the spec: \<^verbatim>\<open>self.close()\<close> is a method of the framework's strategy base
  class, which is not under \<^verbatim>\<open>src/\<close>. Section 4.3: it emits "a SELL intent sized to fully
  close the current position". A short position is closed by the opposite order, and
  there is nothing to close when flat (the call then returns \<^verbatim>\<open>None\<close>).
\<close>

definition close :: "system \<Rightarrow> system \<times> nat option" where
  "close s =
     (if 0 < position s then (case sell (position s) s of (s', r) \<Rightarrow> (s', Some r))
      else if position s < 0 then (case buy (- position s) s of (s', r) \<Rightarrow> (s', Some r))
      else (s, None))"

subsection \<open>The strategy\<close>

text \<open>
  \<^verbatim>\<open>notify_order\<close> (lines 45 to 66). An order that is \<^verbatim>\<open>Submitted\<close> or \<^verbatim>\<open>Accepted\<close>
  returns at once. The branches for \<^verbatim>\<open>Completed\<close> and for
  \<^verbatim>\<open>Canceled\<close>, \<^verbatim>\<open>Margin\<close>, \<^verbatim>\<open>Rejected\<close> only log (and \<^verbatim>\<open>log\<close> prints nothing: its
  \<^verbatim>\<open>print\<close> is commented out), so every other status falls through to line 66, which
  resets the tracker.
\<close>

definition notify_order :: "order_rec \<Rightarrow> system \<Rightarrow> system" where
  "notify_order ord s =
     (if status ord = Submitted \<or> status ord = Accepted then s
      else s\<lparr>order := None\<rparr>)"

text \<open>
  \<^verbatim>\<open>next\<close> (lines 68 to 91), named \<open>strategy_next\<close> here. Its first argument is the value
  of the line \<^verbatim>\<open>self.crossover\<close> on the current bar. \<^verbatim>\<open>if self.order\<close> is true of any
  order object, that is of anything but \<^verbatim>\<open>None\<close>; \<^verbatim>\<open>not self.position\<close> is
  \<^verbatim>\<open>self.position.size == 0\<close>, as the comment on line 78 says.
\<close>

definition strategy_next :: "int \<Rightarrow> system \<Rightarrow> system" where
  "strategy_next crossover s =
     (if order s \<noteq> None then s
      else if position s = 0 then
        (if 0 < crossover then (case buy 10 s of (s', r) \<Rightarrow> s'\<lparr>order := Some r\<rparr>)
         else s)
      else
        (if crossover < 0 then (case close s of (s', r) \<Rightarrow> s'\<lparr>order := r\<rparr>)
         else s))"

section \<open>The replay\<close>

text \<open>
  Modelled from the spec: the broker and the replay loop are the framework's and are not
  under \<^verbatim>\<open>src/\<close>. Section 4.4 gives the life cycle of an order,
  \<^verbatim>\<open>CREATED -> SUBMITTED -> ACCEPTED -> {COMPLETED | CANCELED | MARGIN | REJECTED}\<close>,
  and the effect of a fill on the position (a BUY adds its size, a SELL subtracts it;
  an order that ends in any other status changes nothing). Every change of status is
  reported to the strategy through \<^verbatim>\<open>notify_order\<close>.
\<close>

fun follows :: "order_status \<Rightarrow> order_status \<Rightarrow> bool" where
  "follows Created t = (t = Submitted)"
| "follows Submitted t = (t = Accepted)"
| "follows Accepted t = (t = Completed \<or> t = Canceled \<or> t = Margin \<or> t = Rejected)"
| "follows _ t = False"

definition fill :: "order_rec \<Rightarrow> int \<Rightarrow> int" where
  "fill ord pos =
     (case side ord of BUY \<Rightarrow> pos + requestedSize ord | SELL \<Rightarrow> pos - requestedSize ord)"

definition advance :: "nat \<Rightarrow> order_status \<Rightarrow> system \<Rightarrow> system" where
  "advance r t s =
     (if r < length (orders s) \<and> follows (status (orders s ! r)) t then
        (let ord = (orders s ! r)\<lparr>status := t\<rparr>;
             s' = s\<lparr>orders := (orders s)[r := ord],
                    position := (if t = Completed then fill ord (position s)
                                 else position s)\<rparr>
         in notify_order ord s')
      else s)"

text \<open>
  What happens during a replay is a sequence of events: a bar on which the framework calls
  \<^verbatim>\<open>next\<close> (the event carries the value of the crossover line on that bar), or the
  broker moving one order of its book to a new status. The broker may act at any moment
  and the crossover line may take any value, so a property of every event sequence holds
  for every bar sequence, every pair of periods and every fill timing. An event the life
  cycle does not allow changes nothing.
\<close>

datatype event = Bar int | Broker nat order_status

fun step :: "system \<Rightarrow> event \<Rightarrow> system" where
  "step s (Bar crossover) = strategy_next crossover s"
| "step s (Broker r t) = advance r t s"

definition replay :: "params \<Rightarrow> event list \<Rightarrow> system" where
  "replay p evs = foldl step (start p) evs"

text \<open>An order is outstanding while it is submitted or accepted.\<close>

definition outstanding :: "order_rec \<Rightarrow> bool" where
  "outstanding ord = (status ord = Submitted \<or> status ord = Accepted)"

text \<open>An order is alive until it reaches a final status.\<close>

definition alive :: "order_rec \<Rightarrow> bool" where
  "alive ord = (status ord = Created \<or> status ord = Submitted \<or> status ord = Accepted)"


text \<open>The final statuses of the life cycle.\<close>

definition terminal :: "order_status \<Rightarrow> bool" where
  "terminal t = (t = Completed \<or> t = Canceled \<or> t = Margin \<or> t = Rejected)"

text \<open>
  The invariant of the replay: the position is not negative; an order that is alive is the
  one the tracker holds, and if it is a SELL it has the size of the position; every BUY
  of the book has size 10.
\<close>

definition replay_invariant :: "system \<Rightarrow> bool" where
  "replay_invariant s \<longleftrightarrow>
     0 \<le> position s \<and>
     (\<forall>r < length (orders s).
        (alive (orders s ! r) \<longrightarrow>
           order s = Some r \<and>
           (side (orders s ! r) = SELL \<longrightarrow> requestedSize (orders s ! r) = position s)) \<and>
        (side (orders s ! r) = BUY \<longrightarrow> requestedSize (orders s ! r) = 10))"

subsection \<open>The run configuration\<close>

text \<open>
  Modelled from the spec: the run configuration of section 6 (\<^verbatim>\<open>fastPeriod\<close>,
  \<^verbatim>\<open>slowPeriod\<close>, \<^verbatim>\<open>positionSize\<close>, \<^verbatim>\<open>startingCash\<close>, \<^verbatim>\<open>commissionRate\<close>). The source has
  no such object. Of these values the strategy class takes two, the periods (its
  \<^verbatim>\<open>params\<close>); the script sets cash and commission on the broker (lines 123 to 127);
  no parameter of the class and no call of the script takes a position size.
\<close>

record run_configuration =
  fastPeriod :: nat
  slowPeriod :: nat
  positionSize :: int
  startingCash :: rat
  commissionRate :: rat

definition strategy_params :: "run_configuration \<Rightarrow> params" where
  "strategy_params cfg =
     \<lparr>fast_ma_period = fastPeriod cfg, slow_ma_period = slowPeriod cfg\<rparr>"

section \<open>The moving average\<close>

text \<open>
  Modelled from the spec: \<^verbatim>\<open>bt.indicators.SimpleMovingAverage\<close> (lines 25 to 30 create two
  of them) is the framework's and is not under \<^verbatim>\<open>src/\<close>. Section 4.1 describes it as an
  incremental computation: "maintain a running sum and a fixed-size trailing buffer;
  subtract the value leaving the window, add the value entering it", producing "after
  the p-th price, the arithmetic mean of the trailing p prices; before that, undefined".
  Prices are rational numbers here, so sums and quotients are exact.

  The state is the trailing buffer (oldest price first) and the running sum.
\<close>

definition sma_push :: "nat \<Rightarrow> rat list \<times> rat \<Rightarrow> rat \<Rightarrow> rat list \<times> rat" where
  "sma_push p st x =
     (case st of (buf, running) \<Rightarrow>
        if length buf = p then
          (case buf of
             [] \<Rightarrow> ([x], running + x)
           | y # ys \<Rightarrow> (ys @ [x], running - y + x))
        else (buf @ [x], running + x))"

definition sma_value :: "nat \<Rightarrow> rat list \<times> rat \<Rightarrow> rat option" where
  "sma_value p st =
     (case st of (buf, running) \<Rightarrow>
        if length buf = p then Some (running / of_nat p) else None)"

fun sma_run :: "nat \<Rightarrow> rat list \<times> rat \<Rightarrow> rat list \<Rightarrow> rat option list" where
  "sma_run p st [] = []"
| "sma_run p st (x # xs) =
     (let st' = sma_push p st x in sma_value p st' # sma_run p st' xs)"

definition SimpleMovingAverage :: "nat \<Rightarrow> rat list \<Rightarrow> rat option list" where
  "SimpleMovingAverage p closes = sma_run p ([], 0) closes"

text \<open>The arithmetic mean of the \<open>p\<close> closes of bars \<open>k, ..., k + p - 1\<close>.\<close>

definition window_mean :: "nat \<Rightarrow> nat \<Rightarrow> rat list \<Rightarrow> rat" where
  "window_mean p k closes = sum_list (take p (drop k closes)) / of_nat p"

text \<open>The last \<open>p\<close> elements of a list (all of it when it is shorter).\<close>

definition lastn :: "nat \<Rightarrow> 'a list \<Rightarrow> 'a list" where
  "lastn p h = drop (length h - p) h"

section \<open>The report\<close>

text \<open>
  After the run the script prints what the analyzers return (lines 143 to 179). The
  analyzers are the framework's; the script reads their results as Python values: it
  tests one against \<^verbatim>\<open>None\<close>, subscripts it, reads attributes, compares and divides
  numbers and formats them. The model has these values and operations, and every
  operation that raises in Python returns the error.
\<close>

datatype pyobj = PyNone | PyNum rat | PyDict "(string \<times> pyobj) list"

datatype py_error = KeyError | TypeError | AttributeError | ZeroDivisionError

text \<open>A printed line: its text and the values formatted into it.\<close>

datatype line = Line string "pyobj list"

fun and_then :: "py_error + 'a \<Rightarrow> ('a \<Rightarrow> py_error + 'b) \<Rightarrow> py_error + 'b" where
  "and_then (Inl e) f = Inl e"
| "and_then (Inr x) f = f x"

text \<open>\<^verbatim>\<open>d[k]\<close>: a missing key raises; \<^verbatim>\<open>None\<close> and numbers are not subscriptable.\<close>

fun subscript :: "pyobj \<Rightarrow> string \<Rightarrow> py_error + pyobj" where
  "subscript (PyDict kvs) k = (case map_of kvs k of None \<Rightarrow> Inl KeyError | Some v \<Rightarrow> Inr v)"
| "subscript _ k = Inl TypeError"

text \<open>
  \<^verbatim>\<open>d.k\<close> on an analysis, which is a mapping read with attribute syntax: an entry that is
  not there raises. \<^verbatim>\<open>None\<close> and numbers have no such attribute.
\<close>

fun attr :: "pyobj \<Rightarrow> string \<Rightarrow> py_error + pyobj" where
  "attr (PyDict kvs) k = (case map_of kvs k of None \<Rightarrow> Inl KeyError | Some v \<Rightarrow> Inr v)"
| "attr _ k = Inl AttributeError"

text \<open>A format specification for numbers (\<^verbatim>\<open>:.2f\<close>) raises on anything but a number.\<close>

fun format_number :: "pyobj \<Rightarrow> py_error + pyobj" where
  "format_number (PyNum x) = Inr (PyNum x)"
| "format_number _ = Inl TypeError"

text \<open>\<^verbatim>\<open>v > 0\<close>.\<close>

fun positive :: "pyobj \<Rightarrow> py_error + bool" where
  "positive (PyNum x) = Inr (0 < x)"
| "positive _ = Inl TypeError"

text \<open>\<^verbatim>\<open>(a / b) * 100\<close>.\<close>

fun percentage :: "pyobj \<Rightarrow> pyobj \<Rightarrow> py_error + pyobj" where
  "percentage (PyNum a) (PyNum b) =
     (if b = 0 then Inl ZeroDivisionError else Inr (PyNum (a / b * 100)))"
| "percentage _ _ = Inl TypeError"

text \<open>Lines 147 to 152: the Sharpe ratio.\<close>

definition report_sharpe :: "pyobj \<Rightarrow> py_error + line list" where
  "report_sharpe sharpe_ratio =
     (if sharpe_ratio \<noteq> PyNone then
        and_then (subscript sharpe_ratio ''sharperatio'') (\<lambda>v.
        and_then (format_number v) (\<lambda>x.
        Inr [Line ''Sharpe Ratio: '' [x]]))
      else Inr [Line ''Sharpe Ratio: N/A (Might require more data or trades)'' []])"

text \<open>
  Lines 164 to 179: the trade statistics. The values are read in the order of the
  source; the first operation that raises decides the error, and the result is then the
  error alone (the lines printed before it are not kept).
\<close>

definition no_trades_closed :: line where
  "no_trades_closed = Line ''No trades closed during the backtest period.'' []"

definition attr2 :: "pyobj \<Rightarrow> string \<Rightarrow> string \<Rightarrow> py_error + pyobj" where
  "attr2 d k1 k2 = and_then (attr d k1) (\<lambda>v. attr v k2)"

definition average_line :: "string \<Rightarrow> pyobj \<Rightarrow> string \<Rightarrow> py_error + line list" where
  "average_line txt ta k =
     and_then (attr2 ta k ''total'') (\<lambda>n.
     and_then (positive n) (\<lambda>some.
     if some then
       and_then (attr2 ta k ''pnl'') (\<lambda>pnl.
       and_then (attr pnl ''average'') (\<lambda>a.
       and_then (format_number a) (\<lambda>x.
       Inr [Line txt [x]])))
     else Inr []))"

definition direction_line :: "string \<Rightarrow> pyobj \<Rightarrow> string \<Rightarrow> py_error + line list" where
  "direction_line txt ta k =
     and_then (attr2 ta k ''total'') (\<lambda>n.
     and_then (attr2 ta k ''won'') (\<lambda>w.
     and_then (attr2 ta k ''lost'') (\<lambda>l.
     Inr [Line txt [n, w, l]])))"

definition trade_statistics :: "pyobj \<Rightarrow> py_error + line list" where
  "trade_statistics ta =
     and_then (attr2 ta ''total'' ''closed'') (\<lambda>closed.
     and_then (attr2 ta ''won'' ''total'') (\<lambda>won.
     and_then (attr2 ta ''lost'' ''total'') (\<lambda>lost.
     and_then (percentage won closed) (\<lambda>r.
     and_then (format_number r) (\<lambda>rate.
     and_then (average_line ''Average Win: '' ta ''won'') (\<lambda>avg_win.
     and_then (average_line ''Average Loss: '' ta ''lost'') (\<lambda>avg_loss.
     and_then (direction_line ''Longs: '' ta ''long'') (\<lambda>longs.
     and_then (direction_line ''Shorts: '' ta ''short'') (\<lambda>shorts.
     Inr ([Line ''--- Trade Statistics ---'' [],
           Line ''Total Trades: '' [closed],
           Line ''Wins: '' [won],
           Line ''Losses: '' [lost],
           Line ''Win Rate: '' [rate]] @ avg_win @ avg_loss @ longs @ shorts))))))))))"

definition report_trades :: "pyobj \<Rightarrow> py_error + line list" where
  "report_trades trade_analysis =
     and_then (attr2 trade_analysis ''total'' ''closed'') (\<lambda>closed.
     and_then (positive closed) (\<lambda>some.
     if some then trade_statistics trade_analysis
     else Inr [no_trades_closed]))"


section \<open>The replay keeps its invariant\<close>

lemma replay_invariant_start: "replay_invariant (start p)"
  by (simp add: replay_invariant_def start_def)

lemma replay_invariant_next: "replay_invariant s \<Longrightarrow> replay_invariant (strategy_next c s)"
  unfolding replay_invariant_def strategy_next_def close_def buy_def sell_def new_order_def
  by (auto simp: nth_append alive_def split: if_splits)

lemma follows_cases:
  "follows a t \<Longrightarrow>
     (a = Created \<and> t = Submitted) \<or> (a = Submitted \<and> t = Accepted) \<or>
     (a = Accepted \<and> (t = Completed \<or> t = Canceled \<or> t = Margin \<or> t = Rejected))"
  by (cases a) auto

lemma replay_invariant_advance:
  assumes I: "replay_invariant s"
  shows "replay_invariant (advance r t s)"
proof (cases "r < length (orders s) \<and> follows (status (orders s ! r)) t")
  case False
  with I show ?thesis by (auto simp: advance_def)
next
  case True
  then have r: "r < length (orders s)" and f: "follows (status (orders s ! r)) t"
    by auto
  from f have al: "alive (orders s ! r)"
    by (auto dest!: follows_cases simp: alive_def)
  from I r al have tr: "order s = Some r"
    and sz: "side (orders s ! r) = SELL \<Longrightarrow> requestedSize (orders s ! r) = position s"
    by (auto simp: replay_invariant_def)
  from I tr have others:
    "\<And>q. q < length (orders s) \<Longrightarrow> q \<noteq> r \<Longrightarrow> \<not> alive (orders s ! q)"
    by (auto simp: replay_invariant_def)
  from I have buys:
    "\<And>q. q < length (orders s) \<Longrightarrow> side (orders s ! q) = BUY \<Longrightarrow>
       requestedSize (orders s ! q) = 10"
    by (auto simp: replay_invariant_def)
  from I have pos: "0 \<le> position s"
    by (simp add: replay_invariant_def)
  show ?thesis
    using True tr sz others buys pos follows_cases [OF f]
    unfolding replay_invariant_def advance_def notify_order_def Let_def fill_def
    by (auto simp: nth_list_update alive_def split: side.splits)
qed

lemma replay_invariant_foldl:
  "replay_invariant s \<Longrightarrow> replay_invariant (foldl step s evs)"
proof (induction evs arbitrary: s)
  case Nil
  then show ?case by simp
next
  case (Cons e evs)
  then show ?case
    by (cases e) (simp_all add: replay_invariant_next replay_invariant_advance)
qed

lemma replay_invariant_replay: "replay_invariant (replay p evs)"
  unfolding replay_def by (rule replay_invariant_foldl [OF replay_invariant_start])

lemma filter_at_most_one:
  assumes "\<And>i. i < length xs \<Longrightarrow> P (xs ! i) \<Longrightarrow> i = k"
  shows "length (filter P xs) \<le> 1"
proof -
  have "{i. i < length xs \<and> P (xs ! i)} \<subseteq> {k}"
    using assms by auto
  then have "card {i. i < length xs \<and> P (xs ! i)} \<le> card {k}"
    by (intro card_mono) auto
  then show ?thesis
    by (simp add: length_filter_conv_card)
qed

lemma outstanding_is_tracked:
  assumes "i < length (orders (replay p evs))" "outstanding (orders (replay p evs) ! i)"
  shows "order (replay p evs) = Some i"
  using replay_invariant_replay [of p evs] assms
  by (auto simp: replay_invariant_def alive_def outstanding_def)

lemmas replay_simps =
  replay_def start_def strategy_next_def buy_def sell_def close_def new_order_def
  advance_def notify_order_def fill_def default_params_def strategy_params_def
  outstanding_def terminal_def Let_def

section \<open>The pending-order gate\<close>

text \<open>
  Claim C1. At every point of a replay at most one order is outstanding (submitted or
  accepted), whatever the events and the parameters; and while the tracker holds an order,
  \<^verbatim>\<open>next\<close> changes nothing: it takes no action and the book gets no new order.
\<close>

theorem one_outstanding_order:
  "length (filter outstanding (orders (replay p evs))) \<le> 1 \<and>
   (order s \<noteq> None \<longrightarrow> strategy_next c s = s)"
proof
  show "length (filter outstanding (orders (replay p evs))) \<le> 1"
  proof (cases "order (replay p evs)")
    case None
    show ?thesis
    proof (rule filter_at_most_one [where k = 0])
      fix i
      assume "i < length (orders (replay p evs))" "outstanding (orders (replay p evs) ! i)"
      from outstanding_is_tracked [OF this] None show "i = 0" by simp
    qed
  next
    case (Some k)
    show ?thesis
    proof (rule filter_at_most_one [where k = k])
      fix i
      assume "i < length (orders (replay p evs))" "outstanding (orders (replay p evs) ! i)"
      from outstanding_is_tracked [OF this] Some show "i = k" by simp
    qed
  qed
  show "order s \<noteq> None \<longrightarrow> strategy_next c s = s"
    by (simp add: strategy_next_def)
qed

text \<open>
  A BUY is emitted on the first bar and submitted; the second bar finds the tracker set
  and emits nothing.
\<close>

theorem one_outstanding_order_witness:
  "order (replay default_params [Bar 1, Broker 0 Submitted]) = Some 0 \<and>
   strategy_next 1 (replay default_params [Bar 1, Broker 0 Submitted]) =
     replay default_params [Bar 1, Broker 0 Submitted] \<and>
   filter outstanding (orders (replay default_params [Bar 1, Broker 0 Submitted, Bar 1])) =
     [\<lparr>side = BUY, requestedSize = 10, status = Submitted\<rparr>] \<and>
   length (filter outstanding
     (orders (replay default_params [Bar 1, Broker 0 Submitted, Bar 1]))) \<le> 1"
  using one_outstanding_order
    [of default_params "[Bar 1, Broker 0 Submitted, Bar 1]"
        "replay default_params [Bar 1, Broker 0 Submitted]" 1]
  by (simp add: replay_simps)

section \<open>The decision step\<close>

text \<open>
  Claim C2. On a bar with no pending order, with a position that is flat or long:
  when flat and the crossover line is positive (a bullish cross), \<^verbatim>\<open>next\<close> emits exactly
  one BUY (of size 10) and tracks it; when long and the line is negative (a bearish
  cross), it emits exactly one SELL of the size of the position and tracks it; in every
  other case it emits nothing and changes nothing.
\<close>

theorem next_emits:
  "order s = None \<Longrightarrow> 0 \<le> position s \<Longrightarrow>
   strategy_next c s =
     (if position s = 0 \<and> 0 < c then
        s\<lparr>orders := orders s @ [\<lparr>side = BUY, requestedSize = 10, status = Created\<rparr>],
          order := Some (length (orders s))\<rparr>
      else if 0 < position s \<and> c < 0 then
        s\<lparr>orders := orders s @
             [\<lparr>side = SELL, requestedSize = position s, status = Created\<rparr>],
          order := Some (length (orders s))\<rparr>
      else s)"
  by (auto simp: strategy_next_def buy_def sell_def close_def new_order_def)

text \<open>A long position of 10 on a bearish bar: one SELL of size 10.\<close>

theorem next_emits_witness:
  "orders (strategy_next (- 1)
     \<lparr>params = default_params, order = None, orders = [], position = 10\<rparr>) =
   [\<lparr>side = SELL, requestedSize = 10, status = Created\<rparr>]"
proof -
  let ?s = "\<lparr>params = default_params, order = None, orders = [], position = 10\<rparr>"
  have a: "order ?s = None" and b: "0 \<le> position ?s"
    by simp_all
  show ?thesis
    using next_emits [OF a b, of "- 1"] by simp
qed

section \<open>The position\<close>

text \<open>
  Claim C6. The size of the position is never negative, at any point of any replay.
\<close>

theorem position_never_negative: "0 \<le> position (replay p evs)"
  using replay_invariant_replay [of p evs] by (simp add: replay_invariant_def)

text \<open>A round trip: a BUY of 10 is filled, then the SELL that closes it.\<close>

theorem position_never_negative_witness:
  "position (replay default_params
     [Bar 1, Broker 0 Submitted, Broker 0 Accepted, Broker 0 Completed]) = 10 \<and>
   0 \<le> position (replay default_params
     [Bar 1, Broker 0 Submitted, Broker 0 Accepted, Broker 0 Completed,
      Bar (- 1), Broker 1 Submitted, Broker 1 Accepted, Broker 1 Completed]) \<and>
   position (replay default_params
     [Bar 1, Broker 0 Submitted, Broker 0 Accepted, Broker 0 Completed,
      Bar (- 1), Broker 1 Submitted, Broker 1 Accepted, Broker 1 Completed]) = 0"
  using position_never_negative
    [of default_params
        "[Bar 1, Broker 0 Submitted, Broker 0 Accepted, Broker 0 Completed,
          Bar (- 1), Broker 1 Submitted, Broker 1 Accepted, Broker 1 Completed]"]
  by (simp add: replay_simps)

section \<open>The size of a BUY\<close>

text \<open>
  Claim C7, as the spec states it: the size of a BUY is the configured \<^verbatim>\<open>positionSize\<close>.
  It is not: with \<^verbatim>\<open>positionSize = 25\<close> the BUY emitted on a bullish bar has size 10,
  the literal of line 83.
\<close>

theorem buy_size_counterexample:
  "positionSize \<lparr>fastPeriod = 50, slowPeriod = 200, positionSize = 25,
       startingCash = 100000, commissionRate = 1 / 1000\<rparr> = 25 \<and>
   orders (replay (strategy_params
     \<lparr>fastPeriod = 50, slowPeriod = 200, positionSize = 25,
       startingCash = 100000, commissionRate = 1 / 1000\<rparr>) [Bar 1]) =
   [\<lparr>side = BUY, requestedSize = 10, status = Created\<rparr>]"
  by (simp add: replay_simps)

text \<open>
  Claim C7, amended. Every BUY of every replay has size 10, whatever the parameters: the
  strategy has two parameters, the periods of the moving averages, and the size is a
  constant of \<^verbatim>\<open>next\<close>.
\<close>

theorem buy_size_is_ten:
  "\<forall>ord \<in> set (orders (replay p evs)). side ord = BUY \<longrightarrow> requestedSize ord = 10"
  using replay_invariant_replay [of p evs]
  by (auto simp: replay_invariant_def in_set_conv_nth)

theorem buy_size_is_ten_witness:
  "side (hd (orders (replay \<lparr>fast_ma_period = 5, slow_ma_period = 20\<rparr> [Bar 1]))) = BUY \<and>
   requestedSize (hd (orders (replay \<lparr>fast_ma_period = 5, slow_ma_period = 20\<rparr> [Bar 1]))) = 10"
  using buy_size_is_ten [of "\<lparr>fast_ma_period = 5, slow_ma_period = 20\<rparr>" "[Bar 1]"]
  by (simp add: replay_simps)

section \<open>Notifications that end an order\<close>

text \<open>
  Claim C10. A notification of an order in a final status (\<^verbatim>\<open>Completed\<close>, \<^verbatim>\<open>Canceled\<close>,
  \<^verbatim>\<open>Margin\<close> or \<^verbatim>\<open>Rejected\<close>) resets the tracker to \<^verbatim>\<open>None\<close>, and so does the broker's
  move of an order to such a status; the next decision step runs as with no pending order,
  and on a flat position with a bullish cross it emits a BUY.
\<close>

theorem terminal_notification_resets_tracker:
  "terminal (status ord) \<Longrightarrow>
     order (notify_order ord s) = None \<and>
     strategy_next c (notify_order ord s) = strategy_next c (s\<lparr>order := None\<rparr>) \<and>
     (position s = 0 \<and> 0 < c \<longrightarrow>
        orders (strategy_next c (notify_order ord s)) =
          orders s @ [\<lparr>side = BUY, requestedSize = 10, status = Created\<rparr>]) \<and>
     (r < length (orders s) \<and> follows (status (orders s ! r)) (status ord) \<longrightarrow>
        order (advance r (status ord) s) = None)"
  by (auto simp: terminal_def notify_order_def advance_def Let_def strategy_next_def
        buy_def new_order_def)

text \<open>
  A BUY is accepted and then rejected: the tracker is free again and the next bullish bar
  emits a second BUY.
\<close>

theorem terminal_notification_resets_tracker_witness:
  "order (replay default_params [Bar 1, Broker 0 Submitted, Broker 0 Accepted]) = Some 0 \<and>
   order (notify_order \<lparr>side = BUY, requestedSize = 10, status = Rejected\<rparr>
     (replay default_params [Bar 1, Broker 0 Submitted, Broker 0 Accepted])) = None \<and>
   order (advance 0 Rejected
     (replay default_params [Bar 1, Broker 0 Submitted, Broker 0 Accepted])) = None \<and>
   map status (orders (strategy_next 1
     (notify_order \<lparr>side = BUY, requestedSize = 10, status = Rejected\<rparr>
       (replay default_params [Bar 1, Broker 0 Submitted, Broker 0 Accepted])))) =
     [Accepted, Created]"
proof -
  let ?ord = "\<lparr>side = BUY, requestedSize = 10, status = Rejected\<rparr>"
  have t: "terminal (status ?ord)"
    by (simp add: terminal_def)
  show ?thesis
    using terminal_notification_resets_tracker
      [OF t, of "replay default_params [Bar 1, Broker 0 Submitted, Broker 0 Accepted]" 1 0]
    by (simp add: replay_simps)
qed

section \<open>The moving average is the mean of the trailing window\<close>

lemma length_lastn: "length (lastn p h) = min p (length h)"
  by (simp add: lastn_def)

lemma lastn_snoc_short: "length h < p \<Longrightarrow> lastn p (h @ [x]) = lastn p h @ [x]"
  by (simp add: lastn_def)

lemma lastn_snoc_full:
  assumes p: "0 < p" "p \<le> length h" and l: "lastn p h = y # ys"
  shows "lastn p (h @ [x]) = ys @ [x]"
proof -
  have "lastn p (h @ [x]) = drop (Suc (length h - p)) h @ [x]"
    using p by (simp add: lastn_def Suc_diff_le)
  also have "drop (Suc (length h - p)) h = tl (drop (length h - p) h)"
    by (simp add: drop_Suc tl_drop)
  also have "\<dots> = ys"
    using l by (simp add: lastn_def)
  finally show ?thesis .
qed

text \<open>
  After any history \<open>h\<close> of prices the state is the last \<open>p\<close> of them and their sum, and
  pushing one more price keeps it so.
\<close>

lemma sma_push_lastn:
  assumes "0 < p"
  shows "sma_push p (lastn p h, sum_list (lastn p h)) x =
         (lastn p (h @ [x]), sum_list (lastn p (h @ [x])))"
proof (cases "length h < p")
  case True
  then show ?thesis
    by (simp add: sma_push_def length_lastn lastn_snoc_short)
next
  case False
  then have ge: "p \<le> length h"
    by simp
  then have len: "length (lastn p h) = p"
    by (simp add: length_lastn)
  with assms obtain y ys where l: "lastn p h = y # ys"
    by (cases "lastn p h") auto
  show ?thesis
    using len l lastn_snoc_full [OF assms ge l, of x]
    by (simp add: sma_push_def)
qed

lemma sma_run_lastn:
  assumes "0 < p"
  shows "i < length xs \<Longrightarrow>
     sma_run p (lastn p h, sum_list (lastn p h)) xs ! i =
       (if p \<le> length h + i + 1
        then Some (sum_list (lastn p (h @ take (Suc i) xs)) / of_nat p) else None)"
proof (induction xs arbitrary: h i)
  case Nil
  then show ?case by simp
next
  case (Cons x xs)
  show ?case
  proof (cases i)
    case 0
    then show ?thesis
      using assms by (auto simp: sma_push_lastn sma_value_def length_lastn Let_def)
  next
    case (Suc j)
    with Cons.prems have j: "j < length xs"
      by simp
    show ?thesis
      using Cons.IH [OF j, of "h @ [x]"] Suc assms
      by (simp add: sma_push_lastn Let_def)
  qed
qed

lemma length_sma_run: "length (sma_run p st xs) = length xs"
  by (induction xs arbitrary: st) (simp_all add: Let_def)

lemma sma_at:
  assumes "0 < p" "i < length closes"
  shows "SimpleMovingAverage p closes ! i =
       (if p \<le> i + 1 then Some (sum_list (lastn p (take (Suc i) closes)) / of_nat p)
        else None)"
  using sma_run_lastn [OF assms(1), of i closes "[]"] assms(2)
  by (simp add: SimpleMovingAverage_def lastn_def)

lemma lastn_take_window:
  "p + k \<le> length xs \<Longrightarrow> 0 < p \<Longrightarrow>
     lastn p (take (Suc (p - 1 + k)) xs) = take p (drop k xs)"
  by (simp add: lastn_def min_def drop_take)

text \<open>
  Claim C4. For every period \<open>p \<ge> 1\<close> and every list of closes, the moving average has
  one value per bar; its value at bar \<open>(p - 1) + k\<close> (counted from 0) is the arithmetic mean
  of the closes of bars \<open>k, ..., k + p - 1\<close>, and it has no value at any bar before
  \<open>p - 1\<close>.
\<close>

theorem sma_is_window_mean:
  "1 \<le> p \<Longrightarrow>
     length (SimpleMovingAverage p closes) = length closes \<and>
     (\<forall>k. k + p \<le> length closes \<longrightarrow>
        SimpleMovingAverage p closes ! (p - 1 + k) = Some (window_mean p k closes)) \<and>
     (\<forall>i. i < p - 1 \<and> i < length closes \<longrightarrow> SimpleMovingAverage p closes ! i = None)"
proof (intro conjI allI impI)
  assume p: "1 \<le> p"
  show "length (SimpleMovingAverage p closes) = length closes"
    by (simp add: SimpleMovingAverage_def length_sma_run)
  { fix k
    assume k: "k + p \<le> length closes"
    have "p - 1 + k < length closes"
      using p k by simp
    then show "SimpleMovingAverage p closes ! (p - 1 + k) = Some (window_mean p k closes)"
      using p k lastn_take_window [of p k closes]
      by (simp add: sma_at window_mean_def add.commute) }
  { fix i
    assume "i < p - 1 \<and> i < length closes"
    then show "SimpleMovingAverage p closes ! i = None"
      using p by (auto simp: sma_at) }
qed

text \<open>Period 3 over the closes 1, ..., 6: no value at bar 1, the mean of 2, 3, 4 at bar 3.\<close>

theorem sma_is_window_mean_witness:
  "SimpleMovingAverage 3 [1, 2, 3, 4, 5, 6] ! 1 = None \<and>
   SimpleMovingAverage 3 [1, 2, 3, 4, 5, 6] ! 3 = Some 3 \<and>
   window_mean 3 1 [1, 2, 3, 4, 5, 6] = 3"
proof -
  have h: "(1::nat) \<le> 3"
    by simp
  note t = sma_is_window_mean [OF h, of "[1, 2, 3, 4, 5, 6]"]
  from t have win: "\<forall>k. k + 3 \<le> length [1, 2, 3, 4, 5, 6 :: rat] \<longrightarrow>
      SimpleMovingAverage 3 [1, 2, 3, 4, 5, 6] ! (3 - 1 + k) =
        Some (window_mean 3 k [1, 2, 3, 4, 5, 6])"
    by (rule conjunct1 [OF conjunct2])
  from t have none: "\<forall>i. i < 3 - 1 \<and> i < length [1, 2, 3, 4, 5, 6 :: rat] \<longrightarrow>
      SimpleMovingAverage 3 [1, 2, 3, 4, 5, 6] ! i = None"
    by (rule conjunct2 [OF conjunct2])
  from win [rule_format, of 1]
  have a: "SimpleMovingAverage 3 [1, 2, 3, 4, 5, 6] ! 3 =
             Some (window_mean 3 1 [1, 2, 3, 4, 5, 6])"
    by simp
  from none [rule_format, of 1]
  have b: "SimpleMovingAverage 3 [1, 2, 3, 4, 5, 6] ! 1 = None"
    by simp
  have c: "window_mean 3 1 [1, 2, 3, 4, 5, 6] = 3"
    by (simp add: window_mean_def)
  from a b c show ?thesis
    by simp
qed

section \<open>The trade statistics\<close>

lemma and_then_Inl:
  "and_then m f = Inl e \<Longrightarrow> m = Inl e \<or> (\<exists>x. m = Inr x \<and> f x = Inl e)"
  by (cases m) auto

lemma and_then_Inr:
  "and_then m f = Inr y \<Longrightarrow> \<exists>x. m = Inr x \<and> f x = Inr y"
  by (cases m) auto

lemma attr_no_zde: "attr d k \<noteq> Inl ZeroDivisionError"
  by (cases d) (auto split: option.splits)

lemma attr2_no_zde: "attr2 d k1 k2 \<noteq> Inl ZeroDivisionError"
  by (auto simp: attr2_def attr_no_zde dest!: and_then_Inl)

lemma positive_no_zde: "positive v \<noteq> Inl ZeroDivisionError"
  by (cases v) auto

lemma format_number_no_zde: "format_number v \<noteq> Inl ZeroDivisionError"
  by (cases v) auto

lemma positive_True: "positive v = Inr True \<Longrightarrow> \<exists>n. v = PyNum n \<and> 0 < n"
  by (cases v) auto

lemma percentage_zde: "percentage a b = Inl ZeroDivisionError \<Longrightarrow> b = PyNum 0"
  by (cases a; cases b) (auto split: if_splits)

lemma average_line_no_zde: "average_line txt ta k \<noteq> Inl ZeroDivisionError"
  unfolding average_line_def
  by (auto dest!: and_then_Inl
        simp: attr2_no_zde attr_no_zde positive_no_zde format_number_no_zde
        split: if_splits)

lemma direction_line_no_zde: "direction_line txt ta k \<noteq> Inl ZeroDivisionError"
  unfolding direction_line_def
  by (auto dest!: and_then_Inl simp: attr2_no_zde)

text \<open>The only division is the win rate, and it fails only on a count of zero.\<close>

lemma trade_statistics_zde:
  "trade_statistics ta = Inl ZeroDivisionError \<Longrightarrow>
     attr2 ta ''total'' ''closed'' = Inr (PyNum 0)"
  unfolding trade_statistics_def
  by (auto dest!: and_then_Inl percentage_zde
        simp: attr2_no_zde format_number_no_zde average_line_no_zde direction_line_no_zde)

lemma report_trades_no_zde: "report_trades ta \<noteq> Inl ZeroDivisionError"
proof
  assume "report_trades ta = Inl ZeroDivisionError"
  then obtain closed where c: "attr2 ta ''total'' ''closed'' = Inr closed"
    and p: "positive closed = Inr True"
    and t: "trade_statistics ta = Inl ZeroDivisionError"
    unfolding report_trades_def
    by (auto dest!: and_then_Inl simp: attr2_no_zde positive_no_zde split: if_splits)
  from trade_statistics_zde [OF t] c have "closed = PyNum 0"
    by simp
  with p show False
    by simp
qed

lemma trade_statistics_win_rate:
  "trade_statistics ta = Inr ls \<Longrightarrow> \<exists>r. Line ''Win Rate: '' [r] \<in> set ls"
  unfolding trade_statistics_def
  by (auto dest!: and_then_Inr)

lemma report_trades_Inr:
  "report_trades ta = Inr ls \<Longrightarrow>
     ls = [no_trades_closed] \<or>
     (\<exists>n. 0 < n \<and> attr2 ta ''total'' ''closed'' = Inr (PyNum n) \<and>
          trade_statistics ta = Inr ls)"
  unfolding report_trades_def
  by (auto dest!: and_then_Inr positive_True split: if_splits)

text \<open>
  What lines 166 to 179 do with an analysis that carries the entry
  \<^verbatim>\<open>total.closed\<close>: a count of zero prints the single line of line 179, no input ends
  in a division by zero, and any other report is the trade statistics of a positive count,
  with their win rate.
\<close>

lemma report_trades_with_closed_entry:
  "(attr2 ta ''total'' ''closed'' = Inr (PyNum 0) \<longrightarrow>
      report_trades ta = Inr [no_trades_closed]) \<and>
   report_trades ta \<noteq> Inl ZeroDivisionError \<and>
   (\<forall>ls. report_trades ta = Inr ls \<and> ls \<noteq> [no_trades_closed] \<longrightarrow>
      (\<exists>n. 0 < n \<and> attr2 ta ''total'' ''closed'' = Inr (PyNum n)) \<and>
      trade_statistics ta = Inr ls \<and>
      (\<exists>r. Line ''Win Rate: '' [r] \<in> set ls))"
proof (intro conjI allI impI)
  assume "attr2 ta ''total'' ''closed'' = Inr (PyNum 0)"
  then show "report_trades ta = Inr [no_trades_closed]"
    by (simp add: report_trades_def)
next
  show "report_trades ta \<noteq> Inl ZeroDivisionError"
    by (rule report_trades_no_zde)
next
  fix ls
  assume a: "report_trades ta = Inr ls \<and> ls \<noteq> [no_trades_closed]"
  with report_trades_Inr [of ta ls]
  obtain n where n: "0 < n" "attr2 ta ''total'' ''closed'' = Inr (PyNum n)"
    and t: "trade_statistics ta = Inr ls"
    by auto
  from n show "\<exists>n. 0 < n \<and> attr2 ta ''total'' ''closed'' = Inr (PyNum n)"
    by auto
  from t show "trade_statistics ta = Inr ls" .
  from t show "\<exists>r. Line ''Win Rate: '' [r] \<in> set ls"
    by (rule trade_statistics_win_rate)
qed

text \<open>
  Claim C8 says that with no closed trade the report contains the line "No trades closed
  during the backtest period.". The script reads the number of closed trades as
  \<^verbatim>\<open>trade_analysis.total.closed\<close> (line 166), and the analyzer counts a closed trade in
  that entry only when one closes: after a run in which no trade was opened the analysis
  is \<^verbatim>\<open>{total: {total: 0}}\<close>, and after a run that opened one trade and closed none it
  is \<^verbatim>\<open>{total: {total: 1, open: 1}}\<close>. On both, reading the entry raises
  \<^verbatim>\<open>KeyError\<close> in line 166, before anything is printed: the branch of line 179 is not
  reached and the report has no such line.
\<close>

theorem report_trades_no_closed_trade_raises:
  "report_trades (PyDict [(''total'', PyDict [(''total'', PyNum 0)])]) = Inl KeyError \<and>
   report_trades (PyDict [(''total'', PyDict [(''total'', PyNum 1), (''open'', PyNum 1)])]) =
     Inl KeyError"
  by (simp add: report_trades_def attr2_def)

section \<open>The Sharpe ratio\<close>

text \<open>
  The branch of line 152 prints "N/A" when the analysis itself is \<^verbatim>\<open>None\<close>.
\<close>

lemma report_sharpe_None:
  "report_sharpe PyNone =
     Inr [Line ''Sharpe Ratio: N/A (Might require more data or trades)'' []]"
  by (simp add: report_sharpe_def)

lemma report_sharpe_number:
  "report_sharpe (PyDict [(''sharperatio'', PyNum x)]) =
     Inr [Line ''Sharpe Ratio: '' [PyNum x]]"
  by (simp add: report_sharpe_def)

text \<open>
  Claim C9 says that an undefined Sharpe ratio is reported as "N/A" and that reporting
  never raises. The analyzer returns a mapping, and a ratio it could not compute is the
  entry \<^verbatim>\<open>None\<close> of that mapping. The test of line 149 looks at the mapping, not at the
  entry: the mapping is not \<^verbatim>\<open>None\<close>, so line 150 formats the entry with \<^verbatim>\<open>:.2f\<close>, which
  raises \<^verbatim>\<open>TypeError\<close> on \<^verbatim>\<open>None\<close>. The "N/A" line is not printed.
\<close>

theorem report_sharpe_undefined_entry_raises:
  "report_sharpe (PyDict [(''sharperatio'', PyNone)]) = Inl TypeError"
  by (simp add: report_sharpe_def)

end
